theory Spec2Isabelle
  imports Complex_Main
begin

section \<open>Numbers of the arrays\<close>

text \<open>
  The arrays of \<^verbatim>\<open>Functions.py\<close> hold 64-bit floats. An element is modelled as a finite
  real number or one of the three special values that float arithmetic produces. In the
  array computations rounding is not modelled: a finite value is an exact real. Only the
  fall speed, whose property depends on it, is computed with rounding to the nearest
  double. Zero has no sign (a quotient by zero takes the sign of its numerator, as it does
  for \<^verbatim>\<open>+0.0\<close>).
\<close>

datatype fval = Fin real | PInf | NInf | NaN

datatype error = IndexError | ValueError

fun is_finite :: "fval \<Rightarrow> bool" where
  "is_finite (Fin x) = True"
| "is_finite v = False"

fun fneg :: "fval \<Rightarrow> fval" where
  "fneg (Fin x) = Fin (- x)"
| "fneg PInf = NInf"
| "fneg NInf = PInf"
| "fneg NaN = NaN"

text \<open>The infinity with the sign of a non-zero real.\<close>

definition inf_of_sign :: "real \<Rightarrow> fval" where
  "inf_of_sign x = (if 0 < x then PInf else NInf)"

fun fadd :: "fval \<Rightarrow> fval \<Rightarrow> fval" where
  "fadd (Fin x) (Fin y) = Fin (x + y)"
| "fadd NaN v = NaN"
| "fadd v NaN = NaN"
| "fadd PInf NInf = NaN"
| "fadd NInf PInf = NaN"
| "fadd PInf v = PInf"
| "fadd NInf v = NInf"
| "fadd v PInf = PInf"
| "fadd v NInf = NInf"

fun fmul :: "fval \<Rightarrow> fval \<Rightarrow> fval" where
  "fmul (Fin x) (Fin y) = Fin (x * y)"
| "fmul NaN v = NaN"
| "fmul v NaN = NaN"
| "fmul (Fin x) v = (if x = 0 then NaN else if 0 < x then v else fneg v)"
| "fmul v (Fin y) = (if y = 0 then NaN else if 0 < y then v else fneg v)"
| "fmul PInf v = v"
| "fmul NInf v = fneg v"

fun fdiv :: "fval \<Rightarrow> fval \<Rightarrow> fval" where
  "fdiv (Fin x) (Fin y) = (if y = 0 then (if x = 0 then NaN else inf_of_sign x) else Fin (x / y))"
| "fdiv NaN v = NaN"
| "fdiv v NaN = NaN"
| "fdiv (Fin x) v = Fin 0"
| "fdiv v (Fin y) = (if 0 \<le> y then v else fneg v)"
| "fdiv v w = NaN"

text \<open>\<^verbatim>\<open>x ** n\<close> for a natural exponent; numpy gives 1 for exponent 0 whatever the base.\<close>

fun fpow :: "fval \<Rightarrow> nat \<Rightarrow> fval" where
  "fpow v 0 = Fin 1"
| "fpow (Fin x) n = Fin (x ^ n)"
| "fpow NaN n = NaN"
| "fpow PInf n = PInf"
| "fpow NInf n = (if even n then PInf else NInf)"

text \<open>
  \<^verbatim>\<open>x ** 0.67\<close> on a finite float: numpy returns NaN for a negative base, and 0 for base 0.
\<close>

definition pow067 :: "real \<Rightarrow> fval" where
  "pow067 x = (if x < 0 then NaN else Fin (x powr 0.67))"

text \<open>The comparison \<^verbatim>\<open>a > b\<close> of floats: false as soon as one side is NaN.\<close>

fun fgt :: "fval \<Rightarrow> fval \<Rightarrow> bool" where
  "fgt NaN v = False"
| "fgt v NaN = False"
| "fgt (Fin x) (Fin y) = (y < x)"
| "fgt PInf PInf = False"
| "fgt PInf v = True"
| "fgt v NInf = (v \<noteq> NInf)"
| "fgt v w = False"


text \<open>
  \<^verbatim>\<open>.sum(dim=...)\<close> of xarray on float data skips missing values (\<^verbatim>\<open>skipna\<close> defaults to
  true for floats, \<^verbatim>\<open>min_count\<close> to none): every NaN element is replaced by 0 and the
  elements are added, so the sum of an empty or all-NaN axis is 0.
\<close>

definition skipna :: "fval \<Rightarrow> fval" where
  "skipna v = (if v = NaN then Fin 0 else v)"

definition nansum :: "fval list \<Rightarrow> fval" where
  "nansum xs = foldl fadd (Fin 0) (map skipna xs)"

section \<open>Classification tables\<close>

definition diameter_classes :: "real list" where
  "diameter_classes =
    [0.125, 0.250, 0.375, 0.500, 0.750, 1.000, 1.250, 1.500, 1.750,
     2.000, 2.500, 3.000, 3.500, 4.000, 4.500, 5.000, 5.500, 6.000,
     6.500, 7.000, 7.500, 8.000]"

definition velocity_classes :: "real list" where
  "velocity_classes =
    [0.100, 0.200, 0.400, 0.600, 0.800, 1.000, 1.400, 1.800, 2.200,
     2.600, 3.000, 3.400, 4.200, 5.000, 5.800, 6.600, 7.400, 8.200,
     9.000, 10.000]"

definition diam_vel_classes :: "real list \<times> real list" where
  "diam_vel_classes = (diameter_classes, velocity_classes)"

section \<open>Rounding to the nearest double\<close>

text \<open>
  A double is \<open>m * 2 ^ e\<close> with \<open>\<bar>m\<bar> < 2 ^ 53\<close> and \<open>- 1074 \<le> e \<le> 971\<close>. The binary exponent
  of a non-negative real is that of its binade, and \<open>- 1022\<close> below the smallest normal
  number, so that the spacing of the doubles around it is \<^verbatim>\<open>ulp\<close>.
\<close>

definition expo :: "real \<Rightarrow> int" where
  "expo x = (if x < 1 / 2 ^ 1022 then - 1022 else \<lfloor>log 2 x\<rfloor>)"

definition ulp :: "real \<Rightarrow> real" where
  "ulp x = 2 powr (of_int (expo x) - 52)"

text \<open>The nearest integer, a tie going to the even one.\<close>

definition rne :: "real \<Rightarrow> int" where
  "rne y = (let f = \<lfloor>y\<rfloor>; r = y - of_int f
            in if r < 1 / 2 then f else if 1 / 2 < r then f + 1
               else if even f then f else f + 1)"

text \<open>The double nearest to a non-negative real, before the overflow check.\<close>

definition round_mag :: "real \<Rightarrow> real" where
  "round_mag x = of_int (rne (x / ulp x)) * ulp x"

text \<open>
  From the largest double plus half a spacing on, rounding to nearest gives an infinity.
\<close>

definition overflow_threshold :: real where
  "overflow_threshold = 2 ^ 1024 - 2 ^ 970"

text \<open>The float result of an operation whose exact result is \<open>x\<close>.\<close>

definition fl :: "real \<Rightarrow> fval" where
  "fl x = (if overflow_threshold \<le> x then PInf
           else if x \<le> - overflow_threshold then NInf
           else Fin (sgn x * round_mag \<bar>x\<bar>))"

section \<open>Fall speed\<close>



section \<open>Spectrum estimator\<close>

text \<open>
  The arrays are positional lists: a one-dimensional array along \<^verbatim>\<open>diameter\<close> or
  \<^verbatim>\<open>velocity\<close> is a list, the count matrix of one time step is a list of rows, one row
  per diameter bin. The class values and \<^verbatim>\<open>delta_t\<close> are finite numbers.

  \<^verbatim>\<open>diameter.diff("diameter")\<close> is the list of successive differences, one shorter than
  the input.
\<close>

definition diff :: "real list \<Rightarrow> real list" where
  "diff xs = map2 (\<lambda>hi lo. hi - lo) (tl xs) xs"

text \<open>
  \<^verbatim>\<open>xr.concat([diameter[0], delta_D], dim="diameter")\<close>: the first diameter in front of
  the differences. \<^verbatim>\<open>diameter[0]\<close> raises on an empty array.
\<close>

definition bin_width :: "real list \<Rightarrow> error + real list" where
  "bin_width diameter =
    (case diameter of [] \<Rightarrow> Inl IndexError | d0 # _ \<Rightarrow> Inr (d0 # diff diameter))"

text \<open>Effective sampling area of a diameter, in square metres.\<close>

definition area :: "real \<Rightarrow> real" where
  "area D = 228 * (20 - D / 2) / 1000000"

text \<open>
  \<^verbatim>\<open>delta_t * delta_D * velocity * A\<close>, broadcast to one row per diameter bin and one
  column per velocity bin.
\<close>

definition denominator :: "real \<Rightarrow> real list \<Rightarrow> real list \<Rightarrow> real list \<Rightarrow> real list list" where
  "denominator delta_t delta_D velocity A =
    map2 (\<lambda>dD a. map (\<lambda>v. delta_t * dD * v * a) velocity) delta_D A"

text \<open>
  The source has no check of shapes of its own. Operands without coordinate labels whose
  sizes differ along a shared dimension make xarray's arithmetic raise a
  \<^verbatim>\<open>ValueError\<close>, which is the error branch below. Operands that carry different
  coordinate labels are aligned by xarray on their common labels instead; positional
  lists cannot express that case, and nothing is stated about it here.
\<close>

definition conforms :: "'a list list \<Rightarrow> nat \<Rightarrow> nat \<Rightarrow> bool" where
  "conforms m rows cols = (length m = rows \<and> list_all (\<lambda>r. length r = cols) m)"

text \<open>\<^verbatim>\<open>raw / denominator\<close> along one row: the quotients of one diameter bin.\<close>

definition quotients :: "fval list \<Rightarrow> real list \<Rightarrow> fval list" where
  "quotients r d = map2 (\<lambda>c x. fdiv c (Fin x)) r d"

definition calculate_nd :: "fval list list \<Rightarrow> real list \<Rightarrow> real list \<Rightarrow> real \<Rightarrow> error + fval list" where
  "calculate_nd raw diameter velocity delta_t =
    (case bin_width diameter of
       Inl e \<Rightarrow> Inl e
     | Inr delta_D \<Rightarrow>
        (let A = map area diameter;
             den = denominator delta_t delta_D velocity A
         in if conforms raw (length diameter) (length velocity)
            then Inr (map2 (\<lambda>r d. nansum (quotients r d)) raw den)
            else Inl ValueError))"

section \<open>Bulk parameter integrator\<close>

text \<open>
  One time step: \<^verbatim>\<open>nd\<close> holds N(D) per diameter bin. Each integral is a sum over the
  diameter axis of a product built left to right, as the source writes it.
\<close>

definition calculate_parameters_dsd ::
  "fval list \<Rightarrow> real list \<Rightarrow> error + (fval \<times> fval \<times> fval \<times> fval \<times> fval \<times> fval)" where
  "calculate_parameters_dsd nd diameter =
    (let vd = map (\<lambda>D. fmul (Fin 17.67) (pow067 (D / 10))) diameter
     in case bin_width diameter of
       Inl e \<Rightarrow> Inl e
     | Inr delta_D \<Rightarrow>
        if length nd \<noteq> length diameter then Inl ValueError
        else
          (let rho_w = 1;
               cols = zip diameter (zip vd (zip nd delta_D));
               R = fmul (Fin (6 * pi / 10000))
                     (nansum (map (\<lambda>(D, v, n, dD). fmul (fmul (fmul (Fin (D ^ 3)) v) n) (Fin dD)) cols));
               W = fmul (Fin (pi * rho_w / 6000))
                     (nansum (map (\<lambda>(D, v, n, dD). fmul (fmul (Fin (D ^ 3)) n) (Fin dD)) cols));
               N_T = nansum (map (\<lambda>(D, v, n, dD). fmul n (Fin dD)) cols);
               Z = nansum (map (\<lambda>(D, v, n, dD). fmul (fmul (Fin (D ^ 6)) n) (Fin dD)) cols);
               D_m = fdiv (nansum (map (\<lambda>(D, v, n, dD). fmul (fmul (Fin (D ^ 4)) n) (Fin dD)) cols))
                          (nansum (map (\<lambda>(D, v, n, dD). fmul (fmul (Fin (D ^ 3)) n) (Fin dD)) cols));
               N_w = fmul (Fin (4 ^ 4 / pi * rho_w)) (fdiv (fmul (Fin 1000) W) (fpow D_m 4))
           in Inr (R, W, N_T, Z, D_m, N_w)))"

section \<open>Event segmenter\<close>

text \<open>
  The dataset is the list of its time steps in index order: the timestamp, in nanoseconds,
  and the row of \<^verbatim>\<open>nd\<close> along \<^verbatim>\<open>diameter\<close>.
\<close>

type_synonym dataset = "(int \<times> fval list) list"

text \<open>\<^verbatim>\<open>x.where(cond)\<close> keeps the value where the condition holds and puts NaN elsewhere.\<close>

definition where_gt :: "real \<Rightarrow> fval \<Rightarrow> fval" where
  "where_gt tot_counts s = (if fgt s (Fin tot_counts) then s else NaN)"

text \<open>
  \<^verbatim>\<open>ev.time.diff('time').to_dataframe('date')\<close>: one row per time step but the first,
  indexed by the later timestamp of each pair, holding the gap to the step before. The gap
  is the exact difference; timestamps so far apart that it leaves the 64-bit range are not
  modelled.
\<close>

definition time_diff :: "int list \<Rightarrow> (int \<times> int) list" where
  "time_diff ts = map2 (\<lambda>hi lo. (hi, hi - lo)) (tl ts) ts"

text \<open>\<^verbatim>\<open>pd.Timedelta('10min')\<close> in nanoseconds.\<close>

definition sec :: int where
  "sec = 600000000000"

text \<open>\<^verbatim>\<open>breaks.cumsum()\<close>: the number of breaks up to and including each row.\<close>

fun cumsum :: "nat \<Rightarrow> ('a \<times> bool) list \<Rightarrow> ('a \<times> nat) list" where
  "cumsum acc [] = []"
| "cumsum acc ((t, b) # rows) =
     (let acc' = acc + (if b then 1 else 0) in (t, acc') # cumsum acc' rows)"

text \<open>
  \<^verbatim>\<open>groups.groupby('date')\<close>: one sub-frame per distinct value of the column, in
  increasing order of the value, each with its rows in their original order.
\<close>

definition groupby :: "('a \<times> nat) list \<Rightarrow> ('a \<times> nat) list list" where
  "groupby rows =
    map (\<lambda>k. filter (\<lambda>r. snd r = k) rows) (sort (remdups (map snd rows)))"

definition get_events :: "dataset \<Rightarrow> int \<Rightarrow> int \<Rightarrow> real \<Rightarrow> int list \<times> int list" where
  "get_events ds time_lenght time_break tot_counts =
    (let ev = map (\<lambda>(t, row). (t, where_gt tot_counts (nansum row))) ds;
         ev = filter (\<lambda>(t, s). s \<noteq> NaN) ev;
         a = time_diff (map fst ev);
         breaks = map (\<lambda>(t, d). (t, sec \<le> d)) a;
         groups = cumsum 0 breaks;
         start = map (\<lambda>g. Min (set (map fst g)))
                   (filter (\<lambda>g. time_lenght < int (length g)) (groupby groups));
         end = map (\<lambda>g. Max (set (map fst g)))
                 (filter (\<lambda>g. time_lenght < int (length g)) (groupby groups))
     in (start, end))"

section \<open>Sums that skip missing values\<close>

lemma fadd_zero_right: "fadd v (Fin 0) = v"
  by (cases v) simp_all

lemma foldl_fadd_zeros: "list_all (\<lambda>x. x = Fin 0) xs \<Longrightarrow> foldl fadd a xs = a"
  by (induction xs arbitrary: a) (simp_all add: fadd_zero_right)

lemma nansum_zero: "list_all (\<lambda>x. x = Fin 0 \<or> x = NaN) xs \<Longrightarrow> nansum xs = Fin 0"
proof -
  assume h: "list_all (\<lambda>x. x = Fin 0 \<or> x = NaN) xs"
  have "list_all (\<lambda>x. x = Fin 0) (map skipna xs)"
    using h by (induction xs) (auto simp: skipna_def)
  then show ?thesis
    by (simp add: nansum_def foldl_fadd_zeros)
qed

lemma is_finite_fadd: "is_finite (fadd a b) \<longleftrightarrow> is_finite a \<and> is_finite b"
  by (cases a; cases b) simp_all

lemma is_finite_foldl: "is_finite (foldl fadd a xs) \<longleftrightarrow> is_finite a \<and> list_all is_finite xs"
  by (induction xs arbitrary: a) (auto simp: is_finite_fadd)

lemma is_finite_skipna: "is_finite (skipna v) \<longleftrightarrow> is_finite v \<or> v = NaN"
  by (cases v) (simp_all add: skipna_def)

lemma is_finite_nansum: "is_finite (nansum xs) \<longleftrightarrow> list_all (\<lambda>x. is_finite x \<or> x = NaN) xs"
  by (simp add: nansum_def is_finite_foldl list_all_iff is_finite_skipna)

lemma nansum_append: "nansum (xs @ q # ys) = foldl fadd (fadd (nansum xs) (skipna q)) (map skipna ys)"
  by (simp add: nansum_def)

lemma nansum_without:
  assumes "j < length qs" and "qs ! j = Fin 0 \<or> qs ! j = NaN"
  shows "nansum qs = nansum (take j qs @ drop (Suc j) qs)"
proof -
  have z: "skipna (qs ! j) = Fin 0"
    using assms(2) by (auto simp: skipna_def)
  have "qs = take j qs @ qs ! j # drop (Suc j) qs"
    using assms(1) by (rule id_take_nth_drop)
  then have "nansum qs = nansum (take j qs @ qs ! j # drop (Suc j) qs)"
    by simp
  also have "\<dots> = foldl fadd (nansum (take j qs)) (map skipna (drop (Suc j) qs))"
    by (simp only: nansum_append z fadd_zero_right)
  also have "\<dots> = nansum (take j qs @ drop (Suc j) qs)"
    by (simp add: nansum_def)
  finally show ?thesis .
qed

lemma quotients_zero_counts:
  "list_all (\<lambda>x. x = Fin 0 \<or> x = NaN) (quotients (replicate n (Fin 0)) d)"
  by (auto simp: quotients_def list_all_iff set_zip)

lemma length_bin_width: "bin_width diameter = Inr bw \<Longrightarrow> length bw = length diameter"
  by (cases diameter) (auto simp: bin_width_def diff_def)

lemma length_denominator:
  "length (denominator delta_t delta_D velocity A) = min (length delta_D) (length A)"
  by (simp add: denominator_def)

lemma nth_denominator:
  "i < length delta_D \<Longrightarrow> i < length A \<Longrightarrow> j < length velocity \<Longrightarrow>
   denominator delta_t delta_D velocity A ! i ! j = delta_t * (delta_D ! i) * (velocity ! j) * (A ! i)"
  by (simp add: denominator_def)

lemma calculate_nd_nth:
  assumes "calculate_nd raw diameter velocity delta_t = Inr nd"
      and "bin_width diameter = Inr delta_D"
      and "i < length diameter"
  shows "nd ! i = nansum (quotients (raw ! i)
            (denominator delta_t delta_D velocity (map area diameter) ! i))"
    and "length nd = length diameter"
    and "conforms raw (length diameter) (length velocity)"
  using assms length_bin_width[OF assms(2)]
  by (auto simp: calculate_nd_def Let_def conforms_def length_denominator split: if_splits)

section \<open>Properties of the spectrum estimator\<close>

lemma bin_width_classes_eq:
  "bin_width diameter_classes =
     Inr [1/8, 1/8, 1/8, 1/8, 1/4, 1/4, 1/4, 1/4, 1/4, 1/4,
          1/2, 1/2, 1/2, 1/2, 1/2, 1/2, 1/2, 1/2, 1/2, 1/2, 1/2, 1/2]"
  by (simp add: bin_width_def diameter_classes_def diff_def)

text \<open>
  C8. The bin width vector of the instrument's diameter classes has as many entries as
  there are classes, namely 22; its first entry is the first diameter, 0.125; every entry
  is positive.
\<close>

theorem bin_width_vector:
  "\<exists>bw. bin_width diameter_classes = Inr bw \<and> length bw = length diameter_classes
        \<and> length bw = 22 \<and> bw ! 0 = diameter_classes ! 0 \<and> bw ! 0 = 0.125
        \<and> list_all (\<lambda>w. 0 < w) bw"
  by (simp add: bin_width_classes_eq) (simp add: diameter_classes_def)

lemma denominator_pos:
  assumes "0 < delta_t" and "list_all (\<lambda>w. 0 < w) delta_D" and "list_all (\<lambda>v. 0 < v) velocity"
      and "list_all (\<lambda>a. 0 < a) A"
  shows "list_all (list_all (\<lambda>x. 0 < x)) (denominator delta_t delta_D velocity A)"
  using assms by (auto simp: denominator_def list_all_iff set_zip)

lemma area_pos: "D < 40 \<Longrightarrow> 0 < area D"
  by (simp add: area_def)

lemma diameter_classes_bounds: "list_all (\<lambda>D. 0 < D \<and> D < 40) diameter_classes"
  by (simp add: diameter_classes_def)

lemma velocity_classes_pos: "list_all (\<lambda>v. 0 < v) velocity_classes"
  by (simp add: velocity_classes_def)

text \<open>
  C10. The fixed tables have 22 diameter classes, positive, increasing and below 40 mm, and
  20 positive velocity classes; with \<^verbatim>\<open>delta_t = 60\<close> every cell of the 22 by 20
  denominator of the spectrum estimator is strictly positive, so no quotient of
  \<^const>\<open>calculate_nd\<close> has a zero divisor on these tables.
\<close>

theorem denominator_positive:
  "length diameter_classes = 22 \<and> length velocity_classes = 20
   \<and> list_all (\<lambda>D. 0 < D \<and> D < 40) diameter_classes
   \<and> sorted_wrt (<) diameter_classes
   \<and> list_all (\<lambda>v. 0 < v) velocity_classes
   \<and> (\<exists>delta_D. bin_width diameter_classes = Inr delta_D
        \<and> conforms (denominator 60 delta_D velocity_classes (map area diameter_classes)) 22 20
        \<and> list_all (list_all (\<lambda>x. 0 < x))
             (denominator 60 delta_D velocity_classes (map area diameter_classes)))"
proof -
  have l: "length diameter_classes = 22" "length velocity_classes = 20"
    by (simp_all add: diameter_classes_def velocity_classes_def)
  have s: "sorted_wrt (<) diameter_classes"
    by (simp add: diameter_classes_def)
  have a: "list_all (\<lambda>a. 0 < a) (map area diameter_classes)"
    using diameter_classes_bounds by (auto simp: list_all_iff area_pos)
  let ?bw = "[1/8, 1/8, 1/8, 1/8, 1/4, 1/4, 1/4, 1/4, 1/4, 1/4,
          1/2, 1/2, 1/2, 1/2, 1/2, 1/2, 1/2, 1/2, 1/2, 1/2, 1/2, 1/2] :: real list"
  have w: "list_all (\<lambda>w. 0 < w) ?bw"
    by simp
  have p: "list_all (list_all (\<lambda>x. 0 < x))
             (denominator 60 ?bw velocity_classes (map area diameter_classes))"
    by (rule denominator_pos[OF _ w velocity_classes_pos a]) simp
  have c: "conforms (denominator 60 ?bw velocity_classes (map area diameter_classes)) 22 20"
    by (simp add: conforms_def length_denominator l) (simp add: denominator_def list_all_iff set_zip l)
  show ?thesis
    using l s diameter_classes_bounds velocity_classes_pos bin_width_classes_eq p c by blast
qed

lemma calculate_nd_zero_counts:
  assumes "diameter \<noteq> []"
  shows "calculate_nd (replicate (length diameter) (replicate (length velocity) (Fin 0)))
           diameter velocity delta_t = Inr (replicate (length diameter) (Fin 0))"
proof -
  obtain delta_D where bw: "bin_width diameter = Inr delta_D"
    using assms by (cases diameter) (auto simp: bin_width_def)
  have len: "length delta_D = length diameter"
    using bw by (rule length_bin_width)
  let ?den = "denominator delta_t delta_D velocity (map area diameter)"
  let ?raw = "replicate (length diameter) (replicate (length velocity) (Fin 0))"
  have c: "conforms ?raw (length diameter) (length velocity)"
    by (simp add: conforms_def list_all_iff)
  have "map2 (\<lambda>r d. nansum (quotients r d)) ?raw ?den = replicate (length diameter) (Fin 0)"
  proof (rule nth_equalityI)
    show "length (map2 (\<lambda>r d. nansum (quotients r d)) ?raw ?den) = length (replicate (length diameter) (Fin 0))"
      by (simp add: length_denominator len)
  next
    fix i assume "i < length (map2 (\<lambda>r d. nansum (quotients r d)) ?raw ?den)"
    then have i: "i < length diameter"
      by (simp add: length_denominator len)
    then show "map2 (\<lambda>r d. nansum (quotients r d)) ?raw ?den ! i = replicate (length diameter) (Fin 0) ! i"
      by (simp add: length_denominator len nansum_zero quotients_zero_counts)
  qed
  then show ?thesis
    using bw c by (simp add: calculate_nd_def)
qed

text \<open>
  C5. With the instrument's diameter and velocity classes, a count matrix of zeros gives
  N(D) = 0 in each of the 22 diameter bins, whatever the integration interval: no bin is
  NaN.
\<close>

theorem calculate_nd_all_zero:
  "calculate_nd (replicate 22 (replicate 20 (Fin 0))) diameter_classes velocity_classes delta_t
     = Inr (replicate 22 (Fin 0))"
proof -
  have l: "length diameter_classes = 22" "length velocity_classes = 20" "diameter_classes \<noteq> []"
    by (simp_all add: diameter_classes_def velocity_classes_def)
  show ?thesis
    using calculate_nd_zero_counts[OF l(3), of velocity_classes delta_t] by (simp only: l)
qed

text \<open>
  C1, as stated, fails: one diameter bin at 1 mm, one velocity bin at 0 m/s and a count of
  one make the denominator 0, and the quotient 1 / 0 is an infinity that becomes N(D).
\<close>

theorem zero_denominator_counterexample:
  "denominator 60 [1] [0] (map area [1]) ! 0 ! 0 = 0
   \<and> calculate_nd [[Fin 1]] [1] [0] 60 = Inr [PInf]"
  by (simp add: calculate_nd_def bin_width_def diff_def denominator_def conforms_def
      quotients_def nansum_def skipna_def inf_of_sign_def)

lemma fdiv_zero_denominator:
  "fdiv c (Fin 0) = (if c = Fin 0 \<or> c = NaN then NaN else if c = NInf \<or> (\<exists>x. c = Fin x \<and> x < 0) then NInf else PInf)"
  by (cases c) (auto simp: inf_of_sign_def)

text \<open>
  C1, amended. The source divides without a guard. When the denominator of a cell is zero
  and its count is zero or missing, the quotient is NaN, the sum over the velocity axis
  skips it, and N(D) of that bin is the sum of the other cells of the row: the cell
  contributes zero. When the count is any other value, the quotient is an infinity and
  N(D) of that bin is not finite.
\<close>

theorem zero_denominator_cell:
  assumes "calculate_nd raw diameter velocity delta_t = Inr nd"
      and "bin_width diameter = Inr delta_D"
      and "i < length diameter" and "j < length velocity"
      and "denominator delta_t delta_D velocity (map area diameter) ! i ! j = 0"
  shows "(raw ! i ! j = Fin 0 \<or> raw ! i ! j = NaN \<longrightarrow>
           nd ! i = nansum (take j (quotients (raw ! i) (denominator delta_t delta_D velocity (map area diameter) ! i))
                          @ drop (Suc j) (quotients (raw ! i) (denominator delta_t delta_D velocity (map area diameter) ! i))))
       \<and> (raw ! i ! j \<noteq> Fin 0 \<and> raw ! i ! j \<noteq> NaN \<longrightarrow> \<not> is_finite (nd ! i))"
proof -
  let ?den = "denominator delta_t delta_D velocity (map area diameter)"
  let ?qs = "quotients (raw ! i) (?den ! i)"
  have nd: "nd ! i = nansum ?qs"
    using assms(1,2,3) by (rule calculate_nd_nth(1))
  have c: "conforms raw (length diameter) (length velocity)"
    using assms(1,2,3) by (rule calculate_nd_nth(3))
  have lr: "length (raw ! i) = length velocity"
    using c assms(3) by (auto simp: conforms_def list_all_iff)
  have ld: "length (?den ! i) = length velocity"
    using assms(3) length_bin_width[OF assms(2)] by (simp add: denominator_def)
  have lq: "j < length ?qs"
    using lr ld assms(4) by (simp add: quotients_def)
  have q: "?qs ! j = fdiv (raw ! i ! j) (Fin 0)"
    using lr ld assms(4,5) by (simp add: quotients_def)
  show ?thesis
  proof (intro conjI impI)
    assume "raw ! i ! j = Fin 0 \<or> raw ! i ! j = NaN"
    then have "?qs ! j = Fin 0 \<or> ?qs ! j = NaN"
      using q by (auto simp: fdiv_zero_denominator)
    then show "nd ! i = nansum (take j ?qs @ drop (Suc j) ?qs)"
      using nd nansum_without[OF lq] by simp
  next
    assume "raw ! i ! j \<noteq> Fin 0 \<and> raw ! i ! j \<noteq> NaN"
    then have "?qs ! j = PInf \<or> ?qs ! j = NInf"
      using q by (auto simp: fdiv_zero_denominator)
    then have "\<not> (is_finite (?qs ! j) \<or> ?qs ! j = NaN)"
      by auto
    then have "\<not> list_all (\<lambda>x. is_finite x \<or> x = NaN) ?qs"
      using lq by (auto simp: list_all_length)
    then show "\<not> is_finite (nd ! i)"
      by (simp add: nd is_finite_nansum)
  qed
qed

theorem zero_denominator_cell_witness:
  "calculate_nd [[Fin 0, Fin 2]] [1] [0, 1] 60 = Inr [Fin (50000 / 6669)]
   \<and> bin_width [1] = Inr [1]
   \<and> denominator 60 [1] [0, 1] (map area [1]) ! 0 ! 0 = 0
   \<and> [[Fin 0, Fin 2]] ! 0 ! 0 = Fin 0
   \<and> [Fin (50000 / 6669)] ! 0 =
       nansum (take 0 (quotients ([[Fin 0, Fin 2]] ! 0) (denominator 60 [1] [0, 1] (map area [1]) ! 0))
               @ drop (Suc 0) (quotients ([[Fin 0, Fin 2]] ! 0) (denominator 60 [1] [0, 1] (map area [1]) ! 0)))
   \<and> calculate_nd [[Fin 3, Fin 2]] [1] [0, 1] 60 = Inr [PInf]
   \<and> [[Fin 3, Fin 2]] ! 0 ! 0 \<noteq> Fin 0 \<and> [[Fin 3, Fin 2]] ! 0 ! 0 \<noteq> NaN
   \<and> \<not> is_finite ([PInf] ! 0)"
proof -
  have a: "calculate_nd [[Fin 0, Fin 2]] [1] [0, 1] 60 = Inr [Fin (50000 / 6669)]"
    by (simp add: calculate_nd_def bin_width_def diff_def denominator_def conforms_def
      quotients_def nansum_def skipna_def inf_of_sign_def area_def)
  have a': "calculate_nd [[Fin 3, Fin 2]] [1] [0, 1] 60 = Inr [PInf]"
    by (simp add: calculate_nd_def bin_width_def diff_def denominator_def conforms_def
      quotients_def nansum_def skipna_def inf_of_sign_def area_def)
  have b: "bin_width [1] = Inr [1]"
    by (simp add: bin_width_def diff_def)
  have d: "denominator 60 [1] [0, 1] (map area [1]) ! 0 ! 0 = 0"
    by (simp add: denominator_def)
  have i: "0 < length [1::real]" and j: "0 < length [0, 1::real]"
    by simp_all
  have "[Fin (50000 / 6669)] ! 0 =
       nansum (take 0 (quotients ([[Fin 0, Fin 2]] ! 0) (denominator 60 [1] [0, 1] (map area [1]) ! 0))
               @ drop (Suc 0) (quotients ([[Fin 0, Fin 2]] ! 0) (denominator 60 [1] [0, 1] (map area [1]) ! 0)))"
    using zero_denominator_cell[OF a b i j d] by simp
  moreover have "\<not> is_finite ([PInf] ! 0)"
    using zero_denominator_cell[OF a' b i j d] by simp
  ultimately show ?thesis
    using a a' b d by simp
qed

section \<open>Properties of the bulk parameter integrator\<close>

lemma fmul_zero_right: "fmul a (Fin 0) = Fin 0 \<or> fmul a (Fin 0) = NaN"
  by (cases a) simp_all

lemma fmul_zero_left: "a = Fin 0 \<or> a = NaN \<Longrightarrow> fmul a (Fin d) = Fin 0 \<or> fmul a (Fin d) = NaN"
  by auto

lemma zip_zero_nd:
  "(D, v, n, dD) \<in> set (zip diameter (zip vd (zip (replicate k (Fin 0)) delta_D))) \<Longrightarrow> n = Fin 0"
proof -
  assume "(D, v, n, dD) \<in> set (zip diameter (zip vd (zip (replicate k (Fin 0)) delta_D)))"
  then have "(v, n, dD) \<in> set (zip vd (zip (replicate k (Fin 0)) delta_D))"
    by (rule set_zip_rightD)
  then have "(n, dD) \<in> set (zip (replicate k (Fin 0)) delta_D)"
    by (rule set_zip_rightD)
  then have "n \<in> set (replicate k (Fin 0))"
    by (rule set_zip_leftD)
  then show "n = Fin 0"
    by simp
qed

text \<open>
  C4. On a diameter grid with at least one bin, a spectrum that is zero in every bin gives
  rain rate, liquid water content, total concentration and reflectivity equal to zero, and
  mean diameter and normalized intercept equal to NaN (the quotient 0 / 0 and what is
  computed from it); the call returns, it does not raise.
\<close>

theorem zero_spectrum_parameters:
  assumes "diameter \<noteq> []"
  shows "calculate_parameters_dsd (replicate (length diameter) (Fin 0)) diameter
           = Inr (Fin 0, Fin 0, Fin 0, Fin 0, NaN, NaN)"
proof -
  obtain delta_D where bw: "bin_width diameter = Inr delta_D"
    using assms by (cases diameter) (auto simp: bin_width_def)
  define vd where "vd = map (\<lambda>D. fmul (Fin 17.67) (pow067 (D / 10))) diameter"
  define cols where "cols = zip diameter (zip vd (zip (replicate (length diameter) (Fin 0)) delta_D))"
  have n: "n = Fin 0" if "(D, v, n, dD) \<in> set cols" for D v n dD
    using that unfolding cols_def by (rule zip_zero_nd)
  have s1: "nansum (map (\<lambda>(D, v, n, dD). fmul (fmul (fmul (Fin (D ^ 3)) v) n) (Fin dD)) cols) = Fin 0"
    by (rule nansum_zero) (auto simp: list_all_iff dest!: n intro!: fmul_zero_left fmul_zero_right)
  have s2: "nansum (map (\<lambda>(D, v, n, dD). fmul (fmul (Fin (D ^ 3)) n) (Fin dD)) cols) = Fin 0"
    by (rule nansum_zero) (auto simp: list_all_iff dest!: n)
  have s3: "nansum (map (\<lambda>(D, v, n, dD). fmul n (Fin dD)) cols) = Fin 0"
    by (rule nansum_zero) (auto simp: list_all_iff dest!: n)
  have s4: "nansum (map (\<lambda>(D, v, n, dD). fmul (fmul (Fin (D ^ 6)) n) (Fin dD)) cols) = Fin 0"
    by (rule nansum_zero) (auto simp: list_all_iff dest!: n)
  have s5: "nansum (map (\<lambda>(D, v, n, dD). fmul (fmul (Fin (D ^ 4)) n) (Fin dD)) cols) = Fin 0"
    by (rule nansum_zero) (auto simp: list_all_iff dest!: n)
  have p: "fpow NaN 4 = NaN"
    by (simp add: numeral_eq_Suc)
  note sums = s1[unfolded cols_def vd_def] s2[unfolded cols_def vd_def] s3[unfolded cols_def vd_def]
    s4[unfolded cols_def vd_def] s5[unfolded cols_def vd_def]
  have z: "fmul (Fin c) (Fin 0) = Fin 0" for c
    by simp
  have d: "fdiv (Fin 0) (Fin 0) = NaN" "fdiv (Fin 0) NaN = NaN" "fmul (Fin c) NaN = NaN" for c
    by simp_all
  show ?thesis
    unfolding calculate_parameters_dsd_def Let_def bw
    by (simp only: sum.case length_replicate simp_thms if_False sums z d p)
qed

theorem zero_spectrum_parameters_witness:
  "diameter_classes \<noteq> []
   \<and> calculate_parameters_dsd (replicate (length diameter_classes) (Fin 0)) diameter_classes
       = Inr (Fin 0, Fin 0, Fin 0, Fin 0, NaN, NaN)"
proof -
  have h: "diameter_classes \<noteq> []"
    by (simp add: diameter_classes_def)
  show ?thesis
    using h zero_spectrum_parameters[OF h] by simp
qed

section \<open>Properties of rounding and of the fall speed\<close>

lemma rne_of_int: "rne (of_int k) = k"
  by (simp add: rne_def)

lemma rne_bounds: "\<lfloor>y\<rfloor> \<le> rne y" "rne y \<le> \<lfloor>y\<rfloor> + 1"
  by (simp_all add: rne_def Let_def)

lemma rne_mono:
  assumes "x \<le> y"
  shows "rne x \<le> rne y"
proof (cases "\<lfloor>x\<rfloor> = \<lfloor>y\<rfloor>")
  case True
  then show ?thesis
    using assms by (auto simp: rne_def Let_def)
next
  case False
  then have "\<lfloor>x\<rfloor> + 1 \<le> \<lfloor>y\<rfloor>"
    using floor_mono[OF assms] by linarith
  then show ?thesis
    using rne_bounds(2)[of x] rne_bounds(1)[of y] by linarith
qed

lemma ulp_pos: "0 < ulp x"
  by (simp add: ulp_def)

lemma tiny_powr: "2 powr (- real n) = 1 / 2 ^ n"
  by (simp add: powr_minus_divide powr_realpow)


lemma expo_ge: "- 1022 \<le> expo x"
proof (cases "x < 1 / 2 ^ 1022")
  case True
  then show ?thesis by (simp add: expo_def)
next
  case False
  then have x: "1 / 2 ^ 1022 \<le> x" by simp
  have "log 2 (1 / 2 ^ 1022) \<le> log 2 x"
    using x by (intro log_mono) simp_all
  moreover have "log 2 (1 / 2 ^ 1022) = - 1022"
  proof -
    have "log 2 (2 powr (- real 1022)) = - real 1022"
      by (rule log_powr_cancel) simp_all
    then have "log 2 (1 / 2 ^ 1022) = - real 1022"
      by (simp only: tiny_powr)
    then show ?thesis
      by simp
  qed
  ultimately have "- 1022 \<le> \<lfloor>log 2 x\<rfloor>"
    by (simp add: le_floor_iff)
  then show ?thesis
    using False by (simp add: expo_def)
qed

lemma below_next_binade:
  assumes "0 \<le> x"
  shows "x < 2 powr (of_int (expo x) + 1)"
proof (cases "x < 1 / 2 ^ 1022")
  case True
  have "(1::real) / 2 ^ 1022 = 2 powr (- real 1022)"
    by (simp only: tiny_powr)
  also have "\<dots> < 2 powr (of_int (- 1022) + 1)"
    by (intro powr_less_mono) simp_all
  finally show ?thesis
    using True by (simp add: expo_def)
next
  case False
  then have x: "0 < x"
    by (smt (verit) zero_less_divide_1_iff zero_less_numeral zero_less_power)
  have "log 2 x < of_int \<lfloor>log 2 x\<rfloor> + 1"
    by linarith
  then have "2 powr log 2 x < 2 powr (of_int \<lfloor>log 2 x\<rfloor> + 1)"
    by (intro powr_less_mono) simp_all
  then show ?thesis
    using x False by (simp add: expo_def)
qed

lemma above_binade:
  assumes "1 / 2 ^ 1022 \<le> x"
  shows "2 powr of_int (expo x) \<le> x"
proof -
  have x: "0 < x"
    using assms by (smt (verit) zero_less_divide_1_iff zero_less_numeral zero_less_power)
  have "2 powr of_int \<lfloor>log 2 x\<rfloor> \<le> 2 powr log 2 x"
    by (intro powr_mono) simp_all
  then show ?thesis
    using x assms by (simp add: expo_def)
qed

lemma expo_mono:
  assumes "x \<le> y"
  shows "expo x \<le> expo y"
proof (cases "x < 1 / 2 ^ 1022")
  case True
  then show ?thesis
    using expo_ge[of y] by (simp add: expo_def)
next
  case False
  then have x: "0 < x"
    by (smt (verit) zero_less_divide_1_iff zero_less_numeral zero_less_power)
  have "log 2 x \<le> log 2 y"
    using x assms by (intro log_mono) simp_all
  then have "\<lfloor>log 2 x\<rfloor> \<le> \<lfloor>log 2 y\<rfloor>"
    by (rule floor_mono)
  then show ?thesis
    using False assms by (simp add: expo_def)
qed

lemma ulp_scale: "2 powr (of_int (expo x) + 1) = 2 ^ 53 * ulp x" "2 powr of_int (expo x) = 2 ^ 52 * ulp x"
proof -
  have a: "(2::real) ^ 53 = 2 powr 53" "(2::real) ^ 52 = 2 powr 52"
    using powr_realpow[of "2::real" 53] powr_realpow[of "2::real" 52] by simp_all
  have "(2::real) powr 53 * 2 powr (of_int (expo x) - 52) = 2 powr (53 + (of_int (expo x) - 52))"
    by (simp only: powr_add)
  then show "2 powr (of_int (expo x) + 1) = 2 ^ 53 * ulp x"
    by (simp add: a ulp_def add.commute)
  have "(2::real) powr 52 * 2 powr (of_int (expo x) - 52) = 2 powr (52 + (of_int (expo x) - 52))"
    by (simp only: powr_add)
  then show "2 powr of_int (expo x) = 2 ^ 52 * ulp x"
    by (simp add: a ulp_def)
qed

lemma round_mag_upper:
  assumes "0 \<le> x"
  shows "round_mag x \<le> 2 powr (of_int (expo x) + 1)"
proof -
  have "x \<le> 2 ^ 53 * ulp x"
    using below_next_binade[OF assms] by (simp add: ulp_scale(1))
  then have "x / ulp x \<le> of_int (2 ^ 53)"
    using ulp_pos[of x] by (simp add: pos_divide_le_eq)
  then have "rne (x / ulp x) \<le> rne (of_int (2 ^ 53))"
    by (rule rne_mono)
  then have "rne (x / ulp x) \<le> 2 ^ 53"
    by (simp only: rne_of_int)
  then have "real_of_int (rne (x / ulp x)) \<le> real_of_int (2 ^ 53)"
    by (simp only: of_int_le_iff)
  then have "real_of_int (rne (x / ulp x)) \<le> 2 ^ 53"
    by simp
  then have "real_of_int (rne (x / ulp x)) * ulp x \<le> 2 ^ 53 * ulp x"
    using ulp_pos[of x] by (intro mult_right_mono) simp_all
  then show ?thesis
    by (simp only: round_mag_def ulp_scale(1))
qed

lemma round_mag_lower:
  assumes "1 / 2 ^ 1022 \<le> x"
  shows "2 powr of_int (expo x) \<le> round_mag x"
proof -
  have "2 ^ 52 * ulp x \<le> x"
    using above_binade[OF assms] by (simp add: ulp_scale(2))
  then have "of_int (2 ^ 52) \<le> x / ulp x"
    using ulp_pos[of x] by (simp add: pos_le_divide_eq)
  then have "rne (of_int (2 ^ 52)) \<le> rne (x / ulp x)"
    by (rule rne_mono)
  then have "2 ^ 52 \<le> rne (x / ulp x)"
    by (simp only: rne_of_int)
  then have "real_of_int (2 ^ 52) \<le> real_of_int (rne (x / ulp x))"
    by (simp only: of_int_le_iff)
  then have "2 ^ 52 \<le> real_of_int (rne (x / ulp x))"
    by simp
  then have "2 ^ 52 * ulp x \<le> real_of_int (rne (x / ulp x)) * ulp x"
    using ulp_pos[of x] by (intro mult_right_mono) simp_all
  then show ?thesis
    by (simp only: round_mag_def ulp_scale(2))
qed

lemma round_mag_mono:
  assumes "0 \<le> x" and "x \<le> y"
  shows "round_mag x \<le> round_mag y"
proof (cases "expo x = expo y")
  case True
  then have u: "ulp x = ulp y"
    by (simp add: ulp_def)
  have "x / ulp y \<le> y / ulp y"
    using assms(2) ulp_pos[of y] by (simp add: divide_right_mono)
  then have "rne (x / ulp y) \<le> rne (y / ulp y)"
    by (rule rne_mono)
  then have "of_int (rne (x / ulp y)) * ulp y \<le> of_int (rne (y / ulp y)) * ulp y"
    using ulp_pos[of y] by (intro mult_right_mono) simp_all
  then show ?thesis
    by (simp add: round_mag_def u)
next
  case False
  then have lt: "expo x + 1 \<le> expo y"
    using expo_mono[OF assms(2)] by linarith
  have "\<not> y < 1 / 2 ^ 1022"
  proof
    assume "y < 1 / 2 ^ 1022"
    then have "expo x = expo y"
      using assms(2) by (simp add: expo_def)
    then show False
      using False by simp
  qed
  then have y: "1 / 2 ^ 1022 \<le> y"
    by simp
  have "round_mag x \<le> 2 powr (of_int (expo x) + 1)"
    using assms(1) by (rule round_mag_upper)
  also have "\<dots> \<le> 2 powr of_int (expo y)"
  proof (rule powr_mono)
    have "real_of_int (expo x + 1) \<le> real_of_int (expo y)"
      using lt by (simp only: of_int_le_iff)
    then show "real_of_int (expo x) + 1 \<le> real_of_int (expo y)"
      by simp
  qed simp
  also have "\<dots> \<le> round_mag y"
    using y by (rule round_mag_lower)
  finally show ?thesis .
qed

lemma round_mag_zero: "round_mag 0 = 0"
  by (simp add: round_mag_def rne_def)

lemma round_mag_nonneg: "0 \<le> x \<Longrightarrow> 0 \<le> round_mag x"
  using round_mag_mono[of 0 x] by (simp add: round_mag_zero)



lemma fl_nonneg: "0 \<le> x \<Longrightarrow> fl x = Fin r \<Longrightarrow> 0 \<le> r"
  by (auto simp: fl_def round_mag_nonneg sgn_if split: if_splits)












section \<open>Properties of the event segmenter\<close>

text \<open>
  C2. The result of \<^const>\<open>get_events\<close> is the same for any two values of
  \<^verbatim>\<open>time_break\<close>: the gap that splits groups is the fixed ten minutes.
\<close>

theorem get_events_ignores_time_break:
  "get_events ds time_lenght time_break1 tot_counts = get_events ds time_lenght time_break2 tot_counts"
  by (simp add: get_events_def)

text \<open>
  C3. Samples every minute from minute 0 to minute 10 with density 10, then two samples
  with density 1 after a twenty-minute gap, and \<^verbatim>\<open>time_lenght = 10\<close>,
  \<^verbatim>\<open>tot_counts = 5\<close>. The eleven surviving samples form one run, yet no event is
  returned: the gaps are taken between consecutive samples, so the first sample has no row
  in the frame that is grouped and the first run is counted one short. The same eleven
  samples after an earlier sample and a break are a group of eleven rows and do give an
  event, from minute 20 to minute 30.
\<close>

theorem get_events_first_run_loses_a_step:
  "get_events
     [(0, [Fin 10]),
      (60000000000, [Fin 10]),
      (120000000000, [Fin 10]),
      (180000000000, [Fin 10]),
      (240000000000, [Fin 10]),
      (300000000000, [Fin 10]),
      (360000000000, [Fin 10]),
      (420000000000, [Fin 10]),
      (480000000000, [Fin 10]),
      (540000000000, [Fin 10]),
      (600000000000, [Fin 10]),
      (1800000000000, [Fin 1]),
      (1860000000000, [Fin 1])] 10 5 5 = ([], [])
   \<and> get_events
     [(0, [Fin 10]),
      (1200000000000, [Fin 10]),
      (1260000000000, [Fin 10]),
      (1320000000000, [Fin 10]),
      (1380000000000, [Fin 10]),
      (1440000000000, [Fin 10]),
      (1500000000000, [Fin 10]),
      (1560000000000, [Fin 10]),
      (1620000000000, [Fin 10]),
      (1680000000000, [Fin 10]),
      (1740000000000, [Fin 10]),
      (1800000000000, [Fin 10])] 10 5 5 = ([1200000000000], [1800000000000])"
  by code_simp

text \<open>
  C7, as stated, fails for a negative threshold: the sum over the diameter axis of a row of
  missing values is 0, which exceeds \<^verbatim>\<open>tot_counts = -1\<close>, so twelve all-missing samples
  a minute apart survive the filter and give an event.
\<close>

theorem get_events_all_missing_counterexample:
  "get_events
     [(0, [NaN]),
      (60000000000, [NaN]),
      (120000000000, [NaN]),
      (180000000000, [NaN]),
      (240000000000, [NaN]),
      (300000000000, [NaN]),
      (360000000000, [NaN]),
      (420000000000, [NaN]),
      (480000000000, [NaN]),
      (540000000000, [NaN]),
      (600000000000, [NaN]),
      (660000000000, [NaN])] 10 5 (- 1) = ([60000000000], [660000000000])"
  by code_simp

lemma where_gt_missing:
  assumes "0 \<le> tot_counts" and "list_all (\<lambda>x. x = NaN) row"
  shows "where_gt tot_counts (nansum row) = NaN"
proof -
  have "list_all (\<lambda>x. x = Fin 0 \<or> x = NaN) row"
    using assms(2) by (simp add: list_all_iff)
  then have "nansum row = Fin 0"
    by (rule nansum_zero)
  then show ?thesis
    using assms(1) by (simp add: where_gt_def)
qed

lemma get_events_no_survivor:
  assumes "filter (\<lambda>(t, s). s \<noteq> NaN) (map (\<lambda>(t, row). (t, where_gt tot_counts (nansum row))) ds) = []"
  shows "get_events ds time_lenght time_break tot_counts = ([], [])"
  using assms by (simp add: get_events_def Let_def time_diff_def groupby_def)

text \<open>
  C7, amended. For a series with no time step, and for a series whose values are all
  missing when \<^verbatim>\<open>tot_counts\<close> is not negative (the default is 5),
  \<^const>\<open>get_events\<close> returns two empty sequences.
\<close>

theorem get_events_empty:
  assumes "ds = [] \<or> (0 \<le> tot_counts \<and> list_all (\<lambda>(t, row). list_all (\<lambda>x. x = NaN) row) ds)"
  shows "get_events ds time_lenght time_break tot_counts = ([], [])"
proof (rule get_events_no_survivor)
  show "filter (\<lambda>(t, s). s \<noteq> NaN) (map (\<lambda>(t, row). (t, where_gt tot_counts (nansum row))) ds) = []"
    using assms by (auto simp: filter_empty_conv list_all_iff where_gt_missing)
qed

theorem get_events_empty_witness:
  "get_events [] 10 5 5 = ([], [])
   \<and> (0::real) \<le> 5
   \<and> list_all (\<lambda>(t, row). list_all (\<lambda>x. x = NaN) row) [(0, [NaN, NaN]), (60000000000, [NaN, NaN])]
   \<and> get_events [(0, [NaN, NaN]), (60000000000, [NaN, NaN])] 10 5 5 = ([], [])"
proof -
  have a: "get_events [] 10 5 5 = ([], [])"
    using get_events_empty[of "[]" 5 10 5] by simp
  have b: "get_events [(0, [NaN, NaN]), (60000000000, [NaN, NaN])] 10 5 5 = ([], [])"
    using get_events_empty[of "[(0, [NaN, NaN]), (60000000000, [NaN, NaN])]" 5 10 5] by simp
  show ?thesis
    using a b by simp
qed

end
